theory Spec2Isabelle
  imports Main "HOL-Library.Product_Lexorder"
begin

section \<open>JavaScript values shared by both source files\<close>

text \<open>
  A thrown JavaScript exception is a value. \<open>Error m\<close> is \<^verbatim>\<open>new Error(m)\<close>,
  \<open>ParsingError m\<close> is an instance of the form's \<^verbatim>\<open>ParsingError\<close> class (a subclass of
  \<^verbatim>\<open>Error\<close>, so it carries a message as well), and \<open>TypeError m\<close> is what the
  runtime throws when a property of \<^verbatim>\<open>undefined\<close> is read.
\<close>

datatype js_error = Error string | ParsingError string | TypeError string

fun message :: "js_error \<Rightarrow> string" where
  "message (Error m) = m"
| "message (ParsingError m) = m"
| "message (TypeError m) = m"

text \<open>\<^verbatim>\<open>e instanceof ParsingError\<close>\<close>

fun instanceofParsingError :: "js_error \<Rightarrow> bool" where
  "instanceofParsingError (ParsingError m) = True"
| "instanceofParsingError e = False"

text \<open>
  \<^verbatim>\<open>xs[i]\<close> on a JavaScript array: \<^verbatim>\<open>undefined\<close> (here \<open>None\<close>) for every index
  outside \<open>0 \<dots> length - 1\<close>, in particular for the \<open>-1\<close> that \<^verbatim>\<open>findIndex\<close> returns
  when nothing is found.
\<close>

definition js_nth :: "'a list \<Rightarrow> int \<Rightarrow> 'a option" where
  "js_nth xs i = (if 0 \<le> i \<and> i < int (length xs) then Some (xs ! nat i) else None)"

text \<open>\<^verbatim>\<open>xs.findIndex(p)\<close>: the first index whose element satisfies \<open>p\<close>, or \<open>-1\<close>.\<close>

fun findIndex :: "('a \<Rightarrow> bool) \<Rightarrow> 'a list \<Rightarrow> int" where
  "findIndex p [] = - 1"
| "findIndex p (x # xs) =
     (if p x then 0 else (let i = findIndex p xs in if i < 0 then - 1 else i + 1))"

text \<open>
  \<^verbatim>\<open>xs.sort(cmp)\<close>: a stable sort by a comparator that returns a number; \<open>x\<close> is put
  before \<open>y\<close> when \<open>cmp x y\<close> is negative, and elements that compare as equal keep their
  order.
\<close>

fun insert_by :: "('a \<Rightarrow> 'a \<Rightarrow> int) \<Rightarrow> 'a \<Rightarrow> 'a list \<Rightarrow> 'a list" where
  "insert_by cmp x [] = [x]"
| "insert_by cmp x (y # ys) =
     (if cmp x y \<le> 0 then x # y # ys else y # insert_by cmp x ys)"

fun js_sort :: "('a \<Rightarrow> 'a \<Rightarrow> int) \<Rightarrow> 'a list \<Rightarrow> 'a list" where
  "js_sort cmp [] = []"
| "js_sort cmp (x # xs) = insert_by cmp x (js_sort cmp xs)"

text \<open>\<^verbatim>\<open>BigNumber.toString()\<close>: the decimal digits, after a minus sign for a negative value.\<close>

definition digit_char :: "int \<Rightarrow> char" where
  "digit_char d = char_of (48 + d)"

function decimalDigits :: "int \<Rightarrow> string" where
  "decimalDigits n =
     (if n < 10 then [digit_char n] else decimalDigits (n div 10) @ [digit_char (n mod 10)])"
  by pat_completeness auto
termination
  by (relation "measure nat") auto

declare decimalDigits.simps [simp del]

definition toString :: "int \<Rightarrow> string" where
  "toString n = (if n < 0 then CHR ''-'' # decimalDigits (- n) else decimalDigits n)"


section \<open>The fee quote handler (src/api/index.js)\<close>

subsection \<open>Data\<close>

text \<open>
  The arguments of a \<^verbatim>\<open>WhitelistToken\<close> event of the bridge admin contract and the
  event log entry that carries them. The chain id is an unsigned \<^verbatim>\<open>BigNumber\<close>; block
  number, transaction index and log index are JavaScript numbers that hold integers.
\<close>

record whitelist_args =
  chainId :: nat
  l1Token :: string
  l2Token :: string
  bridgePool :: string

record whitelist_event =
  args :: whitelist_args
  blockNumber :: int
  transactionIndex :: int
  logIndex :: int

text \<open>A query parameter of the request is a string or an array of strings; a missing one is \<open>None\<close>.\<close>

datatype query_value = QString string | QArray "string list"

record request =
  query :: "string \<Rightarrow> query_value option"

text \<open>What the fee SDK returns, as far as the handler reads it: \<^verbatim>\<open>slow.pct\<close> and \<^verbatim>\<open>instant.pct\<close>.\<close>

record fee_details =
  slow_pct :: string
  instant_pct :: string

record response_json =
  slowFeePct :: string
  fastFeePct :: string

record response =
  status :: nat
  json :: response_json

text \<open>
  The provider object is built from the endpoint URL; building it is a constructor call
  that the handler does not await.
\<close>

datatype provider = JsonRpcProvider string

text \<open>
  The external collaborators of the handler. \<open>queryFilter p t\<close> is the answer of the
  bridge admin contract at the fixed address to the query for \<^verbatim>\<open>WhitelistToken\<close> events
  whose L2 token is \<open>t\<close>, from block 0 to the latest block; \<open>getDepositFeesDetails\<close> is the
  fee calculator of the SDK. Either may fail. \<open>WETH\<close> and \<open>ETH\<close> are the two address
  constants of the SDK.
\<close>

record world =
  queryFilter :: "provider \<Rightarrow> string \<Rightarrow> js_error + whitelist_event list"
  getDepositFeesDetails :: "provider \<Rightarrow> string \<Rightarrow> string \<Rightarrow> js_error + fee_details"
  WETH :: string
  ETH :: string

text \<open>The network calls a run of the handler performs, in order.\<close>

datatype call =
  QueryFilter provider string
| GetDepositFeesDetails provider string string

subsection \<open>Operations\<close>

text \<open>The position of an event in the chain's history: block, then transaction, then log.\<close>

definition eventKey :: "whitelist_event \<Rightarrow> int \<times> int \<times> int" where
  "eventKey e = (blockNumber e, transactionIndex e, logIndex e)"

fun isString :: "query_value option \<Rightarrow> bool" where
  "isString (Some (QString s)) = True"
| "isString v = False"

text \<open>The string that a query parameter is, once \<open>isString\<close> has held of it.\<close>

fun stringOf :: "query_value option \<Rightarrow> string" where
  "stringOf (Some (QString s)) = s"
| "stringOf v = []"

text \<open>The comparator of the sort in \<^verbatim>\<open>getTokenDetails\<close>: most recent first.\<close>

definition compareEvents :: "whitelist_event \<Rightarrow> whitelist_event \<Rightarrow> int" where
  "compareEvents a b =
     (if blockNumber b \<noteq> blockNumber a then blockNumber b - blockNumber a
      else if transactionIndex b \<noteq> transactionIndex a then transactionIndex b - transactionIndex a
      else logIndex b - logIndex a)"

text \<open>The events of a query answer that are kept: those whose chain id prints as the given string.\<close>

definition matching :: "string \<Rightarrow> whitelist_event list \<Rightarrow> whitelist_event list" where
  "matching cid evs = filter (\<lambda>event. toString (int (chainId (args event))) = cid) evs"

definition getTokenDetails ::
  "world \<Rightarrow> provider \<Rightarrow> string \<Rightarrow> string \<Rightarrow> call list \<times> (js_error + whitelist_args)" where
  "getTokenDetails w p l2 cid =
     (case queryFilter w p l2 of
        Inl e \<Rightarrow> ([QueryFilter p l2], Inl e)
      | Inr answer \<Rightarrow>
          (let events = matching cid answer in
           if length events = 0 then ([QueryFilter p l2], Inl (Error ''No whitelisted token found''))
           else (case js_sort compareEvents events of
                   event # rest \<Rightarrow> ([QueryFilter p l2], Inr (args event))
                 | [] \<Rightarrow> ([QueryFilter p l2], Inl (TypeError ''Cannot read properties of undefined'')))))"

text \<open>
  The provider of a run: \<open>env\<close> is the environment variable that holds the project id,
  and an unset variable is printed as \<^verbatim>\<open>undefined\<close> by the template string.
\<close>

definition newProvider :: "string option \<Rightarrow> provider" where
  "newProvider env =
     JsonRpcProvider (''https://mainnet.infura.io/v3/'' @ (case env of None \<Rightarrow> ''undefined'' | Some i \<Rightarrow> i))"

text \<open>
  The handler. The result is the list of network calls made and either the exception
  thrown or the response sent.
\<close>

definition handler :: "world \<Rightarrow> string option \<Rightarrow> request \<Rightarrow> call list \<times> (js_error + response)" where
  "handler w env req =
     (let p = newProvider env;
          amt = query req ''amount'';
          l2 = query req ''l2Token'';
          cid = query req ''chainId''
      in if \<not> isString amt \<or> \<not> isString l2 \<or> \<not> isString cid
         then ([], Inl (Error ''Must provide amount and token as query params''))
         else
           (case getTokenDetails w p (stringOf l2) (stringOf cid) of
              (calls, Inl e) \<Rightarrow> (calls, Inl e)
            | (calls, Inr a) \<Rightarrow>
                (let l1 = l1Token a;
                     l1 = (if l1 = WETH w then WETH w else l1);
                     tok = (if l1 = WETH w then ETH w else l1)
                 in case getDepositFeesDetails w p (stringOf amt) tok of
                      Inl e \<Rightarrow> (calls @ [GetDepositFeesDetails p (stringOf amt) tok], Inl e)
                    | Inr d \<Rightarrow>
                        (calls @ [GetDepositFeesDetails p (stringOf amt) tok],
                         Inr \<lparr>status = 200,
                              json = \<lparr>slowFeePct = slow_pct d, fastFeePct = instant_pct d\<rparr>\<rparr>))))"


section \<open>The token selection form (CoinSelection)\<close>

subsection \<open>Library functions\<close>

text \<open>
  \<^verbatim>\<open>ethers.utils.parseUnits(value, decimals)\<close>, the fixed-point parser of the ethers
  library: an optional minus sign, digits and at most one decimal point; the fraction may
  not have more significant digits than \<open>decimals\<close>; the result is the value scaled by
  \<open>10 ^ decimals\<close>. It throws on everything else.
\<close>

definition isDigit :: "char \<Rightarrow> bool" where
  "isDigit c = (c \<in> set ''0123456789'')"

definition digitValue :: "char \<Rightarrow> int" where
  "digitValue c = of_char c - 48"

definition decimalValue :: "string \<Rightarrow> int" where
  "decimalValue ds = foldl (\<lambda>v c. 10 * v + digitValue c) 0 ds"

definition parseFixed :: "string \<Rightarrow> nat \<Rightarrow> js_error + int" where
  "parseFixed val dec =
     (let negative = (take 1 val = ''-'');
          v = (if negative then drop 1 val else val)
      in if v = [] \<or> \<not> list_all (\<lambda>c. isDigit c \<or> c = CHR ''.'') v
         then Inl (Error ''invalid decimal value'')
         else if v = ''.'' then Inl (Error ''missing value'')
         else if 1 < length (filter (\<lambda>c. c = CHR ''.'') v)
         then Inl (Error ''too many decimal points in value'')
         else
           (let whole = takeWhile (\<lambda>c. c \<noteq> CHR ''.'') v;
                fraction = drop 1 (dropWhile (\<lambda>c. c \<noteq> CHR ''.'') v);
                whole = (if whole = [] then ''0'' else whole);
                fraction = (if fraction = [] then ''0'' else fraction);
                fraction = rev (dropWhile (\<lambda>c. c = CHR ''0'') (rev fraction))
            in if dec < length fraction
               then Inl (Error ''fractional component exceeds decimals'')
               else
                 (let fraction = (if fraction = [] then ''0'' else fraction);
                      fraction = fraction @ replicate (dec - length fraction) (CHR ''0'');
                      wei = decimalValue whole * 10 ^ dec + decimalValue fraction
                  in Inr (if negative then - wei else wei))))"

text \<open>\<^verbatim>\<open>ethers.utils.parseEther(value)\<close>: the same at 18 decimals.\<close>

definition parseEther :: "string \<Rightarrow> js_error + int" where
  "parseEther val = parseFixed val 18"

text \<open>
  The helpers of the form's \<^verbatim>\<open>utils\<close> module whose bodies are not part of the sources,
  taken as parameters: \<^verbatim>\<open>parseUnits\<close> (which may throw), \<^verbatim>\<open>formatUnits\<close>, and the
  message that \<^verbatim>\<open>new ParsingError()\<close> carries.
\<close>

record utils =
  parseUnits :: "string \<Rightarrow> nat \<Rightarrow> js_error + int"
  formatUnits :: "int \<Rightarrow> nat \<Rightarrow> string"
  parsingErrorMessage :: string

definition newParsingError :: "utils \<Rightarrow> js_error" where
  "newParsingError u = ParsingError (parsingErrorMessage u)"

text \<open>
  Modelled from the spec: the helper \<^verbatim>\<open>max\<close> of the \<^verbatim>\<open>utils\<close> module is imported by
  the form but its body is not part of the sources. The spec says of its one use,
  \<^verbatim>\<open>max(balance.sub(...), 0)\<close>, that the reduced balance is "floored at zero": the
  larger of the two numbers.
\<close>

definition max_utils :: "int \<Rightarrow> int \<Rightarrow> int" where
  "max_utils a b = (if b \<le> a then a else b)"

subsection \<open>Data\<close>

definition FEE_ESTIMATION :: string where
  "FEE_ESTIMATION = ''.004''"

record token_info =
  address :: string
  symbol :: string
  name :: string
  logoURI :: string
  decimals :: nat

record bridge_fees =
  isAmountTooLow :: bool
  isLiquidityInsufficient :: bool

text \<open>
  What the component reads and writes: \<open>amount\<close>, \<open>token\<close> and \<open>fees\<close> of the send
  store (\<open>fees\<close> may be undefined), its own \<open>error\<close> and \<open>inputAmount\<close>, the selected item
  of the dropdown, the token list and the balances (undefined until they are fetched).
  Amounts and balances are \<^verbatim>\<open>BigNumber\<close>s: unbounded integers in the smallest unit.
\<close>

record form =
  amount :: int
  token :: string
  fees :: "bridge_fees option"
  error :: "js_error option"
  inputAmount :: string
  selectedItem :: "token_info option"
  tokenList :: "token_info list"
  balances :: "int list option"

subsection \<open>Operations\<close>

text \<open>
  \<^verbatim>\<open>handleChange\<close>. Reading \<^verbatim>\<open>selectedItem!.decimals\<close> happens inside the
  \<^verbatim>\<open>try\<close>, so an undefined selected item ends in the \<^verbatim>\<open>catch\<close> like a failed parse.
\<close>

definition handleChange :: "utils \<Rightarrow> form \<Rightarrow> string \<Rightarrow> form" where
  "handleChange u st val =
     (let st1 = st\<lparr>inputAmount := val\<rparr> in
      if val = [] then st1\<lparr>amount := 0, error := None\<rparr>
      else
        (case (case selectedItem st of
                 None \<Rightarrow> Inl (TypeError ''Cannot read properties of undefined'')
               | Some item \<Rightarrow> parseUnits u val (decimals item)) of
           Inr a \<Rightarrow>
             if a < 0 then st1\<lparr>error := Some (newParsingError u)\<rparr>
             else
               (let st2 = st1\<lparr>amount := a\<rparr> in
                case error st of
                  Some e \<Rightarrow> if instanceofParsingError e then st2\<lparr>error := None\<rparr> else st2
                | None \<Rightarrow> st2)
         | Inl e \<Rightarrow> st1\<lparr>error := Some (newParsingError u)\<rparr>))"

text \<open>The updater of the first \<^verbatim>\<open>setError\<close> of the effect: a parsing error stays, any other goes.\<close>

definition clearNonParsingError :: "js_error option \<Rightarrow> js_error option" where
  "clearNonParsingError oldError =
     (case oldError of
        Some e \<Rightarrow> if instanceofParsingError e then Some e else None
      | None \<Rightarrow> None)"

text \<open>
  The effect that checks for insufficient balance. \<open>amount\<close> is an object and so always
  truthy; \<open>inputAmount\<close> is truthy when it is not empty; a balance that is defined is an
  object and truthy as well. An exception would leave the effect with \<open>Inl\<close>.
\<close>

definition checkInsufficientBalance :: "form \<Rightarrow> js_error + form" where
  "checkInsufficientBalance st =
     (if inputAmount st \<noteq> [] then
        (let st1 = st\<lparr>error := clearNonParsingError (error st)\<rparr> in
         case balances st of
           None \<Rightarrow> Inr st1
         | Some bs \<Rightarrow>
             if 0 < amount st then
               (let selectedIndex = findIndex (\<lambda>t. address t = token st) (tokenList st);
                    balance = js_nth bs selectedIndex;
                    isEth = (case js_nth (tokenList st) selectedIndex of
                               None \<Rightarrow> False
                             | Some t \<Rightarrow> symbol t = ''ETH'')
                in case balance of
                     None \<Rightarrow> Inr st1
                   | Some b \<Rightarrow>
                       if isEth then
                         (case parseEther FEE_ESTIMATION of
                            Inl e \<Rightarrow> Inl e
                          | Inr fee \<Rightarrow>
                              if b - fee < amount st
                              then Inr (st1\<lparr>error := Some (Error ''Insufficient balance.'')\<rparr>)
                              else Inr st1)
                       else if b < amount st
                       then Inr (st1\<lparr>error := Some (Error ''Insufficient balance.'')\<rparr>)
                       else Inr st1)
             else Inr st1)
      else Inr st)"

text \<open>
  \<^verbatim>\<open>handleMaxClick\<close>. \<^verbatim>\<open>tokenList[selectedIndex].symbol\<close> is read without a guard,
  so a selected item that is not in the token list throws.
\<close>

definition handleMaxClick :: "utils \<Rightarrow> form \<Rightarrow> js_error + form" where
  "handleMaxClick u st =
     (case (balances st, selectedItem st) of
        (Some bs, Some item) \<Rightarrow>
          (let selectedIndex = findIndex (\<lambda>t. address t = address item) (tokenList st) in
           case js_nth (tokenList st) selectedIndex of
             None \<Rightarrow> Inl (TypeError ''Cannot read properties of undefined'')
           | Some entry \<Rightarrow>
               (let isEth = (symbol entry = ''ETH'') in
                case js_nth bs selectedIndex of
                  Some b \<Rightarrow>
                    if isEth then
                      (case parseEther FEE_ESTIMATION of
                         Inl e \<Rightarrow> Inl e
                       | Inr fee \<Rightarrow>
                           (let balance = max_utils (b - fee) 0 in
                            Inr (st\<lparr>amount := balance,
                                    inputAmount := formatUnits u balance (decimals item)\<rparr>)))
                    else Inr (st\<lparr>amount := b, inputAmount := formatUnits u b (decimals item)\<rparr>)
                | None \<Rightarrow>
                    Inr (st\<lparr>amount := 0, inputAmount := formatUnits u 0 (decimals item)\<rparr>)))
      | _ \<Rightarrow> Inr st)"

text \<open>\<^verbatim>\<open>fees?.isAmountTooLow\<close> and \<^verbatim>\<open>fees?.isLiquidityInsufficient\<close>\<close>

definition feesAmountTooLow :: "form \<Rightarrow> bool" where
  "feesAmountTooLow st = (case fees st of None \<Rightarrow> False | Some f \<Rightarrow> isAmountTooLow f)"

definition feesLiquidityInsufficient :: "form \<Rightarrow> bool" where
  "feesLiquidityInsufficient st =
     (case fees st of None \<Rightarrow> False | Some f \<Rightarrow> isLiquidityInsufficient f)"

definition errorMsg :: "form \<Rightarrow> string option" where
  "errorMsg st =
     (case error st of
        Some e \<Rightarrow> Some (message e)
      | None \<Rightarrow>
          if feesAmountTooLow st
          then Some ''Bridge fee is high for this amount. Send a larger amount.''
          else if feesLiquidityInsufficient st
          then Some (''Insufficient liquidity for ''
                     @ (case selectedItem st of None \<Rightarrow> ''undefined'' | Some item \<Rightarrow> symbol item)
                     @ ''.'')
          else None)"

definition showError :: "form \<Rightarrow> bool" where
  "showError st =
     (error st \<noteq> None
      \<or> (feesAmountTooLow st \<and> 0 < amount st)
      \<or> (feesLiquidityInsufficient st \<and> 0 < amount st))"

text \<open>
  What the error box shows: nothing (\<open>None\<close>) unless \<open>showError\<close> holds, and then the
  value of \<open>errorMsg\<close>.
\<close>

definition errorBox :: "form \<Rightarrow> string option option" where
  "errorBox st = (if showError st then Some (errorMsg st) else None)"


section \<open>Example inputs\<close>

text \<open>
  Three whitelist events of chain 10 for one L2 token, at (block, transaction, log)
  positions of the caller's choice, told apart by the L1 token they name.
\<close>

definition example_event :: "int \<Rightarrow> int \<Rightarrow> int \<Rightarrow> string \<Rightarrow> whitelist_event" where
  "example_event b t l l1 =
     \<lparr>args = \<lparr>chainId = 10, l1Token = l1, l2Token = ''0xL2'', bridgePool = ''0xPool''\<rparr>,
      blockNumber = b, transactionIndex = t, logIndex = l\<rparr>"

definition example_events :: "whitelist_event list" where
  "example_events =
     [example_event 10 0 0 ''0xA'', example_event 10 0 1 ''0xB'', example_event 9 5 5 ''0xC'']"

text \<open>A chain that holds these events, an SDK that always quotes, and its two address constants.\<close>

definition example_world :: "string \<Rightarrow> world" where
  "example_world weth =
     \<lparr>queryFilter = (\<lambda>p t. Inr (if t = ''0xL2'' then example_events else [])),
      getDepositFeesDetails = (\<lambda>p a t. Inr \<lparr>slow_pct = ''1'', instant_pct = ''2''\<rparr>),
      WETH = weth,
      ETH = ''0x0''\<rparr>"

definition example_request :: "query_value option \<Rightarrow> string \<Rightarrow> request" where
  "example_request a cid =
     \<lparr>query = (\<lambda>k. if k = ''amount'' then a
                    else if k = ''l2Token'' then Some (QString ''0xL2'')
                    else if k = ''chainId'' then Some (QString cid)
                    else None)\<rparr>"

text \<open>
  An instance of the \<^verbatim>\<open>utils\<close> helpers: the library's parser, and a stand-in for the
  formatter that prints the integer and the decimal count.
\<close>

definition example_utils :: utils where
  "example_utils =
     \<lparr>parseUnits = parseFixed,
      formatUnits = (\<lambda>v d. toString v @ ''e-'' @ toString (int d)),
      parsingErrorMessage = ''Invalid amount.''\<rparr>"

definition dai_token :: token_info where
  "dai_token = \<lparr>address = ''0xDAI'', symbol = ''DAI'', name = ''Dai'', logoURI = [], decimals = 18\<rparr>"

definition eth_token :: token_info where
  "eth_token = \<lparr>address = ''0xETH'', symbol = ''ETH'', name = ''Ether'', logoURI = [], decimals = 18\<rparr>"

text \<open>\<open>n\<close> whole tokens of 18 decimals, in the smallest unit.\<close>

definition whole :: "int \<Rightarrow> int" where
  "whole n = n * 1000000000000000000"

text \<open>
  A form over the token list DAI, ETH with balances of 100 and 50 whole tokens, ETH
  selected in the dropdown, and the given store token, committed amount and error.
\<close>

definition example_form :: "string \<Rightarrow> int \<Rightarrow> js_error option \<Rightarrow> form" where
  "example_form tok a err =
     \<lparr>amount = a, token = tok, fees = None, error = err, inputAmount = ''1'',
      selectedItem = Some eth_token, tokenList = [dai_token, eth_token],
      balances = Some [whole 100, whole 50]\<rparr>"


section \<open>Auxiliary facts\<close>

subsection \<open>Sorting by the comparator\<close>

lemma compareEvents_le: "compareEvents a b \<le> 0 \<longleftrightarrow> eventKey b \<le> eventKey a"
  by (auto simp: compareEvents_def eventKey_def less_eq_prod_def less_prod_def)

lemma set_insert_by: "set (insert_by cmp x ys) = insert x (set ys)"
  by (induction ys) auto

lemma set_js_sort: "set (js_sort cmp xs) = set xs"
  by (induction xs) (auto simp: set_insert_by)

lemma sorted_insert_by:
  "sorted_wrt (\<lambda>a b. eventKey b \<le> eventKey a) ys \<Longrightarrow>
   sorted_wrt (\<lambda>a b. eventKey b \<le> eventKey a) (insert_by compareEvents x ys)"
proof (induction ys)
  case Nil
  then show ?case by simp
next
  case (Cons y ys)
  show ?case
  proof (cases "compareEvents x y \<le> 0")
    case True
    then have "eventKey y \<le> eventKey x" by (simp add: compareEvents_le)
    with Cons.prems True show ?thesis by (auto intro: order_trans)
  next
    case False
    then have "eventKey x \<le> eventKey y" by (simp add: compareEvents_le)
    with Cons False show ?thesis by (auto simp: set_insert_by)
  qed
qed

lemma sorted_js_sort: "sorted_wrt (\<lambda>a b. eventKey b \<le> eventKey a) (js_sort compareEvents xs)"
  by (induction xs) (auto intro: sorted_insert_by)

lemma js_sort_head:
  assumes "js_sort compareEvents xs = e # rest"
  shows "e \<in> set xs \<and> (\<forall>e' \<in> set xs. eventKey e' \<le> eventKey e)"
proof -
  have s: "set xs = insert e (set rest)"
    using set_js_sort [of compareEvents xs] assms by simp
  have "sorted_wrt (\<lambda>a b. eventKey b \<le> eventKey a) (e # rest)"
    using sorted_js_sort [of xs] assms by simp
  then show ?thesis
    using s by auto
qed

lemma js_sort_Nil: "js_sort cmp xs = [] \<longleftrightarrow> xs = []"
  using set_js_sort [of cmp xs] by (cases xs) (auto simp del: js_sort.simps)

subsection \<open>The handler, case by case\<close>

lemma getTokenDetails_found:
  assumes q: "queryFilter w p l2 = Inr answer" and ne: "matching cid answer \<noteq> []"
  shows "\<exists>e \<in> set (matching cid answer).
           (\<forall>e' \<in> set (matching cid answer). eventKey e' \<le> eventKey e) \<and>
           getTokenDetails w p l2 cid = ([QueryFilter p l2], Inr (args e))"
proof -
  obtain e rest where s: "js_sort compareEvents (matching cid answer) = e # rest"
    using ne js_sort_Nil [of compareEvents "matching cid answer"]
    by (cases "js_sort compareEvents (matching cid answer)") auto
  have "getTokenDetails w p l2 cid = ([QueryFilter p l2], Inr (args e))"
    using q ne s by (simp add: getTokenDetails_def)
  with js_sort_head [OF s] show ?thesis by blast
qed

lemma getTokenDetails_none:
  "queryFilter w p l2 = Inr answer \<Longrightarrow> matching cid answer = [] \<Longrightarrow>
   getTokenDetails w p l2 cid = ([QueryFilter p l2], Inl (Error ''No whitelisted token found''))"
  by (simp add: getTokenDetails_def)

lemma handler_valid:
  assumes "query req ''amount'' = Some (QString a)"
    and "query req ''l2Token'' = Some (QString l2)"
    and "query req ''chainId'' = Some (QString cid)"
  shows "handler w env req =
     (case getTokenDetails w (newProvider env) l2 cid of
        (calls, Inl e) \<Rightarrow> (calls, Inl e)
      | (calls, Inr d) \<Rightarrow>
          (let tok = (if l1Token d = WETH w then ETH w else l1Token d) in
           case getDepositFeesDetails w (newProvider env) a tok of
             Inl e \<Rightarrow> (calls @ [GetDepositFeesDetails (newProvider env) a tok], Inl e)
           | Inr f \<Rightarrow>
               (calls @ [GetDepositFeesDetails (newProvider env) a tok],
                Inr \<lparr>status = 200, json = \<lparr>slowFeePct = slow_pct f, fastFeePct = instant_pct f\<rparr>\<rparr>)))"
  using assms by (simp add: handler_def Let_def split: prod.splits sum.splits)

lemma handler_calls:
  assumes "query req ''amount'' = Some (QString a)"
    and "query req ''l2Token'' = Some (QString l2)"
    and "query req ''chainId'' = Some (QString cid)"
    and "getTokenDetails w (newProvider env) l2 cid = (calls, Inr d)"
  shows "fst (handler w env req) =
     calls @ [GetDepositFeesDetails (newProvider env) a
                (if l1Token d = WETH w then ETH w else l1Token d)]"
  using assms(4) by (simp add: handler_valid [OF assms(1-3)] Let_def split: sum.splits)

lemma handler_invalid:
  assumes "\<not> isString (query req ''amount'') \<or> \<not> isString (query req ''l2Token'')
           \<or> \<not> isString (query req ''chainId'')"
  shows "handler w env req = ([], Inl (Error ''Must provide amount and token as query params''))"
  using assms by (auto simp: handler_def Let_def)

subsection \<open>The examples, evaluated\<close>

lemma toString_10: "toString 10 = ''10''"
  by code_simp

lemma example_matching: "matching ''10'' example_events = example_events"
  by (simp add: matching_def example_events_def example_event_def toString_10)

lemma example_not_matching: "matching ''1'' example_events = []"
  by (simp add: matching_def example_events_def example_event_def toString_10)

lemma example_sorted:
  "js_sort compareEvents example_events =
     [example_event 10 0 1 ''0xB'', example_event 10 0 0 ''0xA'', example_event 9 5 5 ''0xC'']"
  by (simp add: example_events_def example_event_def compareEvents_def)

lemma example_getTokenDetails:
  "getTokenDetails (example_world weth) p ''0xL2'' ''10'' =
     ([QueryFilter p ''0xL2''], Inr (args (example_event 10 0 1 ''0xB'')))"
  by (simp add: getTokenDetails_def example_world_def example_matching example_sorted)
     (simp add: example_events_def)

lemma parseEther_FEE: "parseEther FEE_ESTIMATION = Inr 4000000000000000"
  by code_simp

subsection \<open>Array lookups\<close>

lemma findIndex_bounds: "- 1 \<le> findIndex p xs \<and> findIndex p xs < int (length xs)"
  by (induction xs) (auto simp: Let_def)

lemma findIndex_found:
  "0 \<le> findIndex p xs \<Longrightarrow> \<exists>x. js_nth xs (findIndex p xs) = Some x \<and> p x"
  by (induction xs) (auto simp: Let_def js_nth_def nat_add_distrib split: if_splits)

lemma clearNonParsingError_not_Error: "clearNonParsingError x \<noteq> Some (Error m)"
  by (cases x) (auto simp: clearNonParsingError_def elim: instanceofParsingError.elims)


section \<open>The fee quote handler: properties\<close>

text \<open>
  Claim C1. Whenever the event query answers and at least one of the returned events
  carries the requested chain id, \<open>getTokenDetails\<close> returns the arguments of an event
  that is maximal among the matching ones in the lexicographic order on (block number,
  transaction index, log index), and the handler, called with string parameters, hands
  the L1 token of that event (or the ETH constant in its place, see C8) to the fee
  calculator. In the example, the events at (10,0,0), (10,0,1) and (9,5,5) resolve to
  the event at (10,0,1).
\<close>

theorem most_recent_whitelist_event_wins:
  "(query req ''amount'' = Some (QString a) \<longrightarrow>
    query req ''l2Token'' = Some (QString l2) \<longrightarrow>
    query req ''chainId'' = Some (QString cid) \<longrightarrow>
    queryFilter w (newProvider env) l2 = Inr answer \<longrightarrow>
    matching cid answer \<noteq> [] \<longrightarrow>
      (\<exists>e \<in> set (matching cid answer).
         (\<forall>e' \<in> set (matching cid answer). eventKey e' \<le> eventKey e) \<and>
         getTokenDetails w (newProvider env) l2 cid =
           ([QueryFilter (newProvider env) l2], Inr (args e)) \<and>
         fst (handler w env req) =
           [QueryFilter (newProvider env) l2,
            GetDepositFeesDetails (newProvider env) a
              (if l1Token (args e) = WETH w then ETH w else l1Token (args e))]))
   \<and> getTokenDetails (example_world weth) p ''0xL2'' ''10'' =
       ([QueryFilter p ''0xL2''], Inr (args (example_event 10 0 1 ''0xB'')))"
proof (intro conjI impI)
  assume v: "query req ''amount'' = Some (QString a)" "query req ''l2Token'' = Some (QString l2)"
    "query req ''chainId'' = Some (QString cid)"
    and q: "queryFilter w (newProvider env) l2 = Inr answer" and ne: "matching cid answer \<noteq> []"
  from getTokenDetails_found [OF q ne]
  obtain e where e: "e \<in> set (matching cid answer)"
    "\<forall>e' \<in> set (matching cid answer). eventKey e' \<le> eventKey e"
    "getTokenDetails w (newProvider env) l2 cid = ([QueryFilter (newProvider env) l2], Inr (args e))"
    by blast
  from handler_calls [OF v e(3)] e
  show "\<exists>e \<in> set (matching cid answer).
         (\<forall>e' \<in> set (matching cid answer). eventKey e' \<le> eventKey e) \<and>
         getTokenDetails w (newProvider env) l2 cid =
           ([QueryFilter (newProvider env) l2], Inr (args e)) \<and>
         fst (handler w env req) =
           [QueryFilter (newProvider env) l2,
            GetDepositFeesDetails (newProvider env) a
              (if l1Token (args e) = WETH w then ETH w else l1Token (args e))]"
    by auto
next
  show "getTokenDetails (example_world weth) p ''0xL2'' ''10'' =
       ([QueryFilter p ''0xL2''], Inr (args (example_event 10 0 1 ''0xB'')))"
    by (rule example_getTokenDetails)
qed

theorem most_recent_whitelist_event_wins_witness:
  "queryFilter (example_world ''0xWETH'') (newProvider (Some ''id'')) ''0xL2'' = Inr example_events
   \<and> matching ''10'' example_events \<noteq> []
   \<and> (\<exists>e \<in> set (matching ''10'' example_events).
         (\<forall>e' \<in> set (matching ''10'' example_events). eventKey e' \<le> eventKey e) \<and>
         getTokenDetails (example_world ''0xWETH'') (newProvider (Some ''id'')) ''0xL2'' ''10'' =
           ([QueryFilter (newProvider (Some ''id'')) ''0xL2''], Inr (args e)) \<and>
         fst (handler (example_world ''0xWETH'') (Some ''id'')
                (example_request (Some (QString ''1000'')) ''10'')) =
           [QueryFilter (newProvider (Some ''id'')) ''0xL2'',
            GetDepositFeesDetails (newProvider (Some ''id'')) ''1000''
              (if l1Token (args e) = WETH (example_world ''0xWETH'')
               then ETH (example_world ''0xWETH'') else l1Token (args e))])"
proof -
  have q: "queryFilter (example_world ''0xWETH'') (newProvider (Some ''id'')) ''0xL2''
             = Inr example_events"
    by (simp add: example_world_def)
  have ne: "matching ''10'' example_events \<noteq> []"
    unfolding example_matching by (simp add: example_events_def)
  have v: "query (example_request (Some (QString ''1000'')) ''10'') ''amount''
             = Some (QString ''1000'')"
    "query (example_request (Some (QString ''1000'')) ''10'') ''l2Token'' = Some (QString ''0xL2'')"
    "query (example_request (Some (QString ''1000'')) ''10'') ''chainId'' = Some (QString ''10'')"
    by (simp_all add: example_request_def)
  from most_recent_whitelist_event_wins
    [of "example_request (Some (QString ''1000'')) ''10''" "''1000''" "''0xL2''" "''10''"
        "example_world ''0xWETH''" "Some ''id''" example_events]
    q ne v
  show ?thesis by blast
qed

text \<open>
  Claim C2. If one of the query parameters \<open>amount\<close>, \<open>l2Token\<close>, \<open>chainId\<close> is missing
  or is not a string, the handler throws, and the list of network calls it has made is
  empty: neither the event query nor the fee calculation was started. (The provider
  object exists by then, but the handler has not called it.)
\<close>

theorem invalid_query_rejected_before_any_call:
  "\<not> isString (query req ''amount'') \<or> \<not> isString (query req ''l2Token'')
     \<or> \<not> isString (query req ''chainId'') \<Longrightarrow>
   handler w env req = ([], Inl (Error ''Must provide amount and token as query params''))"
  by (rule handler_invalid)

theorem invalid_query_rejected_before_any_call_witness:
  "\<not> isString (query (example_request None ''10'') ''amount'')
   \<and> handler (example_world ''0xWETH'') None (example_request None ''10'') =
       ([], Inl (Error ''Must provide amount and token as query params''))
   \<and> \<not> isString (query (example_request (Some (QString ''1000'')) ''10''
                          \<lparr>query := (query (example_request (Some (QString ''1000'')) ''10''))
                                       (''chainId'' := Some (QArray [''1'', ''10'']))\<rparr>) ''chainId'')
   \<and> handler (example_world ''0xWETH'') None
        (example_request (Some (QString ''1000'')) ''10''
           \<lparr>query := (query (example_request (Some (QString ''1000'')) ''10''))
                        (''chainId'' := Some (QArray [''1'', ''10'']))\<rparr>) =
       ([], Inl (Error ''Must provide amount and token as query params''))"
  using invalid_query_rejected_before_any_call
    [of "example_request None ''10''" "example_world ''0xWETH''" None]
    invalid_query_rejected_before_any_call
    [of "example_request (Some (QString ''1000'')) ''10''
           \<lparr>query := (query (example_request (Some (QString ''1000'')) ''10''))
                        (''chainId'' := Some (QArray [''1'', ''10'']))\<rparr>"
        "example_world ''0xWETH''" None]
  by (simp add: example_request_def)

text \<open>
  Claim C3. For a request whose three parameters are strings, if the event query
  answers and none of the events returned for the L2 token carries the given chain id,
  the handler throws the error "No whitelisted token found" after that one query; the
  fee calculator is not called and no response is sent.
\<close>

theorem no_matching_event_rejected:
  "query req ''amount'' = Some (QString a) \<Longrightarrow>
   query req ''l2Token'' = Some (QString l2) \<Longrightarrow>
   query req ''chainId'' = Some (QString cid) \<Longrightarrow>
   queryFilter w (newProvider env) l2 = Inr answer \<Longrightarrow>
   matching cid answer = [] \<Longrightarrow>
   handler w env req =
     ([QueryFilter (newProvider env) l2], Inl (Error ''No whitelisted token found''))"
  using handler_valid [of req a l2 cid w env] getTokenDetails_none [of w "newProvider env" l2 answer cid]
  by simp

theorem no_matching_event_rejected_witness:
  "matching ''1'' example_events = []
   \<and> handler (example_world ''0xWETH'') (Some ''id'')
        (example_request (Some (QString ''1000'')) ''1'') =
       ([QueryFilter (newProvider (Some ''id'')) ''0xL2''],
        Inl (Error ''No whitelisted token found''))"
proof -
  have q: "queryFilter (example_world ''0xWETH'') (newProvider (Some ''id'')) ''0xL2''
             = Inr example_events"
    by (simp add: example_world_def)
  have v: "query (example_request (Some (QString ''1000'')) ''1'') ''amount''
             = Some (QString ''1000'')"
    "query (example_request (Some (QString ''1000'')) ''1'') ''l2Token'' = Some (QString ''0xL2'')"
    "query (example_request (Some (QString ''1000'')) ''1'') ''chainId'' = Some (QString ''1'')"
    by (simp_all add: example_request_def)
  from no_matching_event_rejected [OF v q example_not_matching] example_not_matching
  show ?thesis by simp
qed

text \<open>
  Claim C8. For a request whose three parameters are strings and whose token is
  resolved, the last network call of the handler is the fee calculation, and the token
  it is given is the SDK's ETH address when the resolved L1 token equals the SDK's WETH
  address, and the resolved L1 token itself otherwise.
\<close>

theorem weth_is_quoted_as_eth:
  "query req ''amount'' = Some (QString a) \<Longrightarrow>
   query req ''l2Token'' = Some (QString l2) \<Longrightarrow>
   query req ''chainId'' = Some (QString cid) \<Longrightarrow>
   getTokenDetails w (newProvider env) l2 cid = (calls, Inr d) \<Longrightarrow>
   (l1Token d = WETH w \<longrightarrow>
      fst (handler w env req) = calls @ [GetDepositFeesDetails (newProvider env) a (ETH w)]) \<and>
   (l1Token d \<noteq> WETH w \<longrightarrow>
      fst (handler w env req) = calls @ [GetDepositFeesDetails (newProvider env) a (l1Token d)])"
  by (simp add: handler_calls)

theorem weth_is_quoted_as_eth_witness:
  "fst (handler (example_world ''0xB'') (Some ''id'')
          (example_request (Some (QString ''1000'')) ''10'')) =
     [QueryFilter (newProvider (Some ''id'')) ''0xL2'',
      GetDepositFeesDetails (newProvider (Some ''id'')) ''1000'' ''0x0'']
   \<and> fst (handler (example_world ''0xWETH'') (Some ''id'')
          (example_request (Some (QString ''1000'')) ''10'')) =
     [QueryFilter (newProvider (Some ''id'')) ''0xL2'',
      GetDepositFeesDetails (newProvider (Some ''id'')) ''1000'' ''0xB'']"
  using weth_is_quoted_as_eth
    [of "example_request (Some (QString ''1000'')) ''10''" "''1000''" "''0xL2''" "''10''"
        "example_world ''0xB''" "Some ''id''" "[QueryFilter (newProvider (Some ''id'')) ''0xL2'']"
        "args (example_event 10 0 1 ''0xB'')"]
    weth_is_quoted_as_eth
    [of "example_request (Some (QString ''1000'')) ''10''" "''1000''" "''0xL2''" "''10''"
        "example_world ''0xWETH''" "Some ''id''" "[QueryFilter (newProvider (Some ''id'')) ''0xL2'']"
        "args (example_event 10 0 1 ''0xB'')"]
  by (simp add: example_request_def example_getTokenDetails)
     (simp add: example_world_def example_event_def)

section \<open>The token selection form: properties\<close>

subsection \<open>The operations, case by case\<close>

lemma handleChange_empty:
  "handleChange u st [] = st\<lparr>inputAmount := [], amount := 0, error := None\<rparr>"
  by (simp add: handleChange_def)

lemma handleChange_parsed:
  "val \<noteq> [] \<Longrightarrow> selectedItem st = Some item \<Longrightarrow>
   parseUnits u val (decimals item) = Inr a \<Longrightarrow> 0 \<le> a \<Longrightarrow>
   handleChange u st val =
     st\<lparr>inputAmount := val, amount := a,
        error := (case error st of
                    Some e \<Rightarrow> if instanceofParsingError e then None else Some e
                  | None \<Rightarrow> None)\<rparr>"
  by (auto simp: handleChange_def Let_def split: option.splits)

lemma handleChange_negative:
  "val \<noteq> [] \<Longrightarrow> selectedItem st = Some item \<Longrightarrow>
   parseUnits u val (decimals item) = Inr a \<Longrightarrow> a < 0 \<Longrightarrow>
   handleChange u st val = st\<lparr>inputAmount := val, error := Some (newParsingError u)\<rparr>"
  by (simp add: handleChange_def Let_def)

lemma handleChange_failure:
  "val \<noteq> [] \<Longrightarrow> selectedItem st = Some item \<Longrightarrow>
   parseUnits u val (decimals item) = Inl e \<Longrightarrow>
   handleChange u st val = st\<lparr>inputAmount := val, error := Some (newParsingError u)\<rparr>"
  by (simp add: handleChange_def Let_def)

lemma handleChange_no_item:
  "val \<noteq> [] \<Longrightarrow> selectedItem st = None \<Longrightarrow>
   handleChange u st val = st\<lparr>inputAmount := val, error := Some (newParsingError u)\<rparr>"
  by (simp add: handleChange_def Let_def)

lemma check_present:
  assumes "inputAmount st \<noteq> []" "0 < amount st" "balances st = Some bs"
    and "findIndex (\<lambda>t. address t = token st) (tokenList st) = i"
    and "js_nth bs i = Some b" "js_nth (tokenList st) i = Some t"
  shows "checkInsufficientBalance st =
     Inr (st\<lparr>error :=
            (if (if symbol t = ''ETH'' then b - 4000000000000000 else b) < amount st
             then Some (Error ''Insufficient balance.'')
             else clearNonParsingError (error st))\<rparr>)"
  using assms by (simp add: checkInsufficientBalance_def Let_def parseEther_FEE)

lemma check_absent:
  assumes "balances st = Some bs"
    and "js_nth bs (findIndex (\<lambda>t. address t = token st) (tokenList st)) = None"
  shows "checkInsufficientBalance st =
     Inr (if inputAmount st = [] then st else st\<lparr>error := clearNonParsingError (error st)\<rparr>)"
  using assms by (simp add: checkInsufficientBalance_def Let_def)

lemma clearNonParsingError_cases:
  "clearNonParsingError x = x \<or> clearNonParsingError x = None"
  by (simp add: clearNonParsingError_def split: option.splits)

lemma max_click:
  assumes "balances st = Some bs" "selectedItem st = Some item"
    and "findIndex (\<lambda>t. address t = address item) (tokenList st) = i"
    and "js_nth (tokenList st) i = Some entry" "js_nth bs i = Some b"
  shows "handleMaxClick u st =
     Inr (let avail = (if symbol entry = ''ETH'' then max 0 (b - 4000000000000000) else b)
          in st\<lparr>amount := avail, inputAmount := formatUnits u avail (decimals item)\<rparr>)"
  using assms by (auto simp: handleMaxClick_def Let_def parseEther_FEE max_utils_def max_def)

lemma example_parse:
  "parseUnits example_utils ''1.5'' (decimals eth_token) = Inr 1500000000000000000"
  "parseUnits example_utils ''-1'' (decimals eth_token) = Inr (- 1000000000000000000)"
  "parseUnits example_utils ''1,5'' (decimals eth_token) = Inl (Error ''invalid decimal value'')"
  by code_simp+

subsection \<open>The claims\<close>

text \<open>
  Claim C4. Typing into the amount field: the empty string commits the amount zero and
  clears the error, whatever it was. A string that is not empty is handed to
  \<open>parseUnits\<close> with the decimal count of the selected token. A result that is not
  negative is committed (and an earlier parsing error is cleared). A negative result, an
  exception of \<open>parseUnits\<close>, or the lack of a selected token sets a parsing error and
  leaves the committed amount as it was.
\<close>

theorem amount_input_parsed_or_flagged:
  "handleChange u st [] = st\<lparr>inputAmount := [], amount := 0, error := None\<rparr>
   \<and> (val \<noteq> [] \<longrightarrow> selectedItem st = Some item \<longrightarrow>
        (\<forall>a. parseUnits u val (decimals item) = Inr a \<longrightarrow> 0 \<le> a \<longrightarrow>
           handleChange u st val =
             st\<lparr>inputAmount := val, amount := a,
                error := (case error st of
                            Some e \<Rightarrow> if instanceofParsingError e then None else Some e
                          | None \<Rightarrow> None)\<rparr>)
        \<and> (\<forall>a. parseUnits u val (decimals item) = Inr a \<longrightarrow> a < 0 \<longrightarrow>
             handleChange u st val = st\<lparr>inputAmount := val, error := Some (newParsingError u)\<rparr>
             \<and> amount (handleChange u st val) = amount st)
        \<and> (\<forall>e. parseUnits u val (decimals item) = Inl e \<longrightarrow>
             handleChange u st val = st\<lparr>inputAmount := val, error := Some (newParsingError u)\<rparr>
             \<and> amount (handleChange u st val) = amount st))
   \<and> (val \<noteq> [] \<longrightarrow> selectedItem st = None \<longrightarrow>
        handleChange u st val = st\<lparr>inputAmount := val, error := Some (newParsingError u)\<rparr>
        \<and> amount (handleChange u st val) = amount st)"
  by (simp add: handleChange_empty handleChange_parsed handleChange_negative
        handleChange_failure handleChange_no_item)

theorem amount_input_parsed_or_flagged_witness:
  "handleChange example_utils (example_form ''0xETH'' (whole 5) (Some (Error ''Insufficient balance.''))) []
     = (example_form ''0xETH'' 0 None)\<lparr>inputAmount := []\<rparr>
   \<and> handleChange example_utils (example_form ''0xETH'' (whole 5) (Some (ParsingError ''Invalid amount.''))) ''1.5''
     = (example_form ''0xETH'' 1500000000000000000 None)\<lparr>inputAmount := ''1.5''\<rparr>
   \<and> handleChange example_utils (example_form ''0xETH'' (whole 5) None) ''-1''
     = (example_form ''0xETH'' (whole 5) (Some (ParsingError ''Invalid amount.'')))\<lparr>inputAmount := ''-1''\<rparr>
   \<and> handleChange example_utils (example_form ''0xETH'' (whole 5) None) ''1,5''
     = (example_form ''0xETH'' (whole 5) (Some (ParsingError ''Invalid amount.'')))\<lparr>inputAmount := ''1,5''\<rparr>"
  using
    amount_input_parsed_or_flagged
      [of example_utils "example_form ''0xETH'' (whole 5) (Some (Error ''Insufficient balance.''))"]
    amount_input_parsed_or_flagged
      [of example_utils "example_form ''0xETH'' (whole 5) (Some (ParsingError ''Invalid amount.''))"
          "''1.5''" eth_token]
    amount_input_parsed_or_flagged
      [of example_utils "example_form ''0xETH'' (whole 5) None" "''-1''" eth_token]
    amount_input_parsed_or_flagged
      [of example_utils "example_form ''0xETH'' (whole 5) None" "''1,5''" eth_token]
  by (simp add: example_parse)
     (simp add: example_form_def newParsingError_def example_utils_def)

text \<open>
  Claim C5. The balance check, run with an input that is not empty, a positive committed
  amount and a balance at the position of the store's token in the token list: the
  token list has an entry at that position, it is the first one with the store's token
  address, and the error becomes "Insufficient balance." exactly when the amount exceeds
  the balance, or, when that entry has the symbol ETH, the balance less the buffer of
  .004 ether (4000000000000000 in the smallest unit); otherwise the error is what the
  first update leaves: a parsing error if there was one, and nothing else. In the
  example the balances are 100 and 50 whole tokens, ETH is at index 1, and the amounts
  are 51 and 49 whole tokens, all in the unit the buffer .004 is given in.
\<close>

theorem insufficient_balance_flagged:
  "(inputAmount st \<noteq> [] \<longrightarrow> 0 < amount st \<longrightarrow> balances st = Some bs \<longrightarrow>
    findIndex (\<lambda>t. address t = token st) (tokenList st) = i \<longrightarrow>
    js_nth bs i = Some b \<longrightarrow>
      (\<exists>t. js_nth (tokenList st) i = Some t \<and> address t = token st \<and>
           checkInsufficientBalance st =
             Inr (st\<lparr>error :=
                    (if (if symbol t = ''ETH'' then b - 4000000000000000 else b) < amount st
                     then Some (Error ''Insufficient balance.'')
                     else clearNonParsingError (error st))\<rparr>)))
   \<and> clearNonParsingError (Some (ParsingError m)) = Some (ParsingError m)
   \<and> clearNonParsingError (Some (Error m)) = None
   \<and> clearNonParsingError None = None
   \<and> checkInsufficientBalance (example_form ''0xETH'' (whole 51) None) =
       Inr (example_form ''0xETH'' (whole 51) (Some (Error ''Insufficient balance.'')))
   \<and> checkInsufficientBalance (example_form ''0xETH'' (whole 49) None) =
       Inr (example_form ''0xETH'' (whole 49) None)"
proof (intro conjI impI)
  assume a: "inputAmount st \<noteq> []" "0 < amount st" "balances st = Some bs"
    and i: "findIndex (\<lambda>t. address t = token st) (tokenList st) = i"
    and b: "js_nth bs i = Some b"
  from b have "0 \<le> i"
    by (simp add: js_nth_def split: if_splits)
  with i findIndex_found [of "\<lambda>t. address t = token st" "tokenList st"]
  obtain t where t: "js_nth (tokenList st) i = Some t" "address t = token st"
    by auto
  from check_present [OF a i b t(1)] t
  show "\<exists>t. js_nth (tokenList st) i = Some t \<and> address t = token st \<and>
           checkInsufficientBalance st =
             Inr (st\<lparr>error :=
                    (if (if symbol t = ''ETH'' then b - 4000000000000000 else b) < amount st
                     then Some (Error ''Insufficient balance.'')
                     else clearNonParsingError (error st))\<rparr>)"
    by blast
next
  show "checkInsufficientBalance (example_form ''0xETH'' (whole 51) None) =
       Inr (example_form ''0xETH'' (whole 51) (Some (Error ''Insufficient balance.'')))"
    by (simp add: checkInsufficientBalance_def example_form_def whole_def js_nth_def
        dai_token_def eth_token_def parseEther_FEE)
next
  show "checkInsufficientBalance (example_form ''0xETH'' (whole 49) None) =
       Inr (example_form ''0xETH'' (whole 49) None)"
    by (simp add: checkInsufficientBalance_def example_form_def whole_def js_nth_def
        dai_token_def eth_token_def parseEther_FEE clearNonParsingError_def)
qed (simp_all add: clearNonParsingError_def)

theorem insufficient_balance_flagged_witness:
  "findIndex (\<lambda>t. address t = ''0xETH'') [dai_token, eth_token] = 1
   \<and> js_nth [whole 100, whole 50] 1 = Some (whole 50)
   \<and> checkInsufficientBalance (example_form ''0xETH'' (whole 49) (Some (Error ''Insufficient balance.'')))
       = Inr (example_form ''0xETH'' (whole 49) None)
   \<and> checkInsufficientBalance (example_form ''0xDAI'' (whole 101) None)
       = Inr (example_form ''0xDAI'' (whole 101) (Some (Error ''Insufficient balance.'')))"
  using
    insufficient_balance_flagged
      [of "example_form ''0xETH'' (whole 49) (Some (Error ''Insufficient balance.''))"
          "[whole 100, whole 50]" 1 "whole 50"]
    insufficient_balance_flagged
      [of "example_form ''0xDAI'' (whole 101) None" "[whole 100, whole 50]" 0 "whole 100"]
  by (simp add: example_form_def js_nth_def whole_def eth_token_def dai_token_def
        clearNonParsingError_def)

text \<open>
  Claim C9. When the balances are known but there is no entry at the position of the
  store's token (the token is not in the token list, so the position is \<open>-1\<close>, or the
  position lies beyond the end of the balances), the balance check only applies its first
  update: it leaves the state alone on empty input and otherwise clears a non-parsing
  error. Whatever the committed amount, the error afterwards is the old one or none;
  the check sets no "Insufficient balance." error.
\<close>

theorem absent_balance_never_flagged:
  "balances st = Some bs \<Longrightarrow>
   findIndex (\<lambda>t. address t = token st) (tokenList st) = i \<Longrightarrow>
   i < 0 \<or> int (length bs) \<le> i \<Longrightarrow>
   checkInsufficientBalance st =
     Inr (if inputAmount st = [] then st else st\<lparr>error := clearNonParsingError (error st)\<rparr>)
   \<and> (\<exists>st'. checkInsufficientBalance st = Inr st' \<and> (error st' = error st \<or> error st' = None))"
proof -
  assume a: "balances st = Some bs" "findIndex (\<lambda>t. address t = token st) (tokenList st) = i"
    "i < 0 \<or> int (length bs) \<le> i"
  then have "js_nth bs (findIndex (\<lambda>t. address t = token st) (tokenList st)) = None"
    by (auto simp: js_nth_def)
  from check_absent [OF a(1) this] clearNonParsingError_cases [of "error st"]
  show ?thesis by auto
qed

theorem absent_balance_never_flagged_witness:
  "checkInsufficientBalance (example_form ''0xUNI'' (whole 1000000) None)
     = Inr (example_form ''0xUNI'' (whole 1000000) None)
   \<and> checkInsufficientBalance
       ((example_form ''0xETH'' (whole 1000000) None)\<lparr>balances := Some [whole 100]\<rparr>)
     = Inr ((example_form ''0xETH'' (whole 1000000) None)\<lparr>balances := Some [whole 100]\<rparr>)"
  using
    absent_balance_never_flagged
      [of "example_form ''0xUNI'' (whole 1000000) None" "[whole 100, whole 50]" "- 1"]
    absent_balance_never_flagged
      [of "(example_form ''0xETH'' (whole 1000000) None)\<lparr>balances := Some [whole 100]\<rparr>"
          "[whole 100]" 1]
  by (simp add: example_form_def eth_token_def dai_token_def clearNonParsingError_def)

text \<open>
  Claim C6. The Max action, with balances known, an item selected and a balance at the
  position of that item's address in the token list: the token list has an entry at
  that position, with the item's address; the committed amount becomes the balance, and
  the input shows \<open>formatUnits\<close> of the same number at the item's decimal count; when
  the entry has the symbol ETH, the number is the balance less the buffer of .004 ether
  (4000000000000000 in the smallest unit), and zero if that is negative.
\<close>

theorem max_click_sets_available_balance:
  "balances st = Some bs \<Longrightarrow> selectedItem st = Some item \<Longrightarrow>
   findIndex (\<lambda>t. address t = address item) (tokenList st) = i \<Longrightarrow>
   js_nth bs i = Some b \<Longrightarrow>
   \<exists>entry. js_nth (tokenList st) i = Some entry \<and> address entry = address item \<and>
     (symbol entry = ''ETH'' \<longrightarrow>
        handleMaxClick u st =
          Inr (st\<lparr>amount := max 0 (b - 4000000000000000),
                 inputAmount := formatUnits u (max 0 (b - 4000000000000000)) (decimals item)\<rparr>)) \<and>
     (symbol entry \<noteq> ''ETH'' \<longrightarrow>
        handleMaxClick u st =
          Inr (st\<lparr>amount := b, inputAmount := formatUnits u b (decimals item)\<rparr>))"
proof -
  assume a: "balances st = Some bs" "selectedItem st = Some item"
    and i: "findIndex (\<lambda>t. address t = address item) (tokenList st) = i"
    and b: "js_nth bs i = Some b"
  from b have "0 \<le> i"
    by (simp add: js_nth_def split: if_splits)
  with i findIndex_found [of "\<lambda>t. address t = address item" "tokenList st"]
  obtain entry where e: "js_nth (tokenList st) i = Some entry" "address entry = address item"
    by auto
  from max_click [OF a i e(1) b, of u] e
  show ?thesis by (simp add: Let_def)
qed

theorem max_click_sets_available_balance_witness:
  "handleMaxClick example_utils (example_form ''0xETH'' 0 None) =
     Inr ((example_form ''0xETH'' 49996000000000000000 None)
            \<lparr>inputAmount := formatUnits example_utils 49996000000000000000 18\<rparr>)
   \<and> handleMaxClick example_utils ((example_form ''0xETH'' 7 None)\<lparr>balances := Some [whole 100, 1000]\<rparr>) =
     Inr ((example_form ''0xETH'' 0 None)
            \<lparr>balances := Some [whole 100, 1000], inputAmount := formatUnits example_utils 0 18\<rparr>)
   \<and> handleMaxClick example_utils ((example_form ''0xETH'' 0 None)\<lparr>selectedItem := Some dai_token\<rparr>) =
     Inr ((example_form ''0xETH'' (whole 100) None)
            \<lparr>selectedItem := Some dai_token, inputAmount := formatUnits example_utils (whole 100) 18\<rparr>)"
  using
    max_click_sets_available_balance
      [of "example_form ''0xETH'' 0 None" "[whole 100, whole 50]" eth_token 1 "whole 50"
          example_utils]
    max_click_sets_available_balance
      [of "(example_form ''0xETH'' 7 None)\<lparr>balances := Some [whole 100, 1000]\<rparr>"
          "[whole 100, 1000]" eth_token 1 1000 example_utils]
    max_click_sets_available_balance
      [of "(example_form ''0xETH'' 0 None)\<lparr>selectedItem := Some dai_token\<rparr>"
          "[whole 100, whole 50]" dai_token 0 "whole 100" example_utils]
  by (simp add: example_form_def js_nth_def whole_def eth_token_def dai_token_def)

text \<open>
  Claim C7. What the error box shows: the message of the error when there is one,
  whatever the fees say; without an error, the "fee is high" warning when the fees mark
  the amount as too low, whatever they say of liquidity; without either, the
  "insufficient liquidity" warning when the fees mark liquidity as insufficient (each
  warning for a positive amount, see C10); and nothing at all when there is no error
  and neither mark.
\<close>

theorem error_message_precedence:
  "(error st = Some e \<longrightarrow> errorBox st = Some (Some (message e)))
   \<and> (error st = None \<longrightarrow> feesAmountTooLow st \<longrightarrow> 0 < amount st \<longrightarrow>
        errorBox st = Some (Some ''Bridge fee is high for this amount. Send a larger amount.''))
   \<and> (error st = None \<longrightarrow> \<not> feesAmountTooLow st \<longrightarrow> feesLiquidityInsufficient st \<longrightarrow>
        0 < amount st \<longrightarrow>
        errorBox st =
          Some (Some (''Insufficient liquidity for ''
                      @ (case selectedItem st of None \<Rightarrow> ''undefined'' | Some item \<Rightarrow> symbol item)
                      @ ''.'')))
   \<and> (error st = None \<longrightarrow> \<not> feesAmountTooLow st \<longrightarrow> \<not> feesLiquidityInsufficient st \<longrightarrow>
        errorBox st = None)"
  by (simp add: errorBox_def showError_def errorMsg_def)

theorem error_message_precedence_witness:
  "errorBox ((example_form ''0xETH'' 1 (Some (Error ''Insufficient balance.'')))
               \<lparr>fees := Some \<lparr>isAmountTooLow = True, isLiquidityInsufficient = True\<rparr>\<rparr>)
     = Some (Some ''Insufficient balance.'')
   \<and> errorBox ((example_form ''0xETH'' 1 None)
               \<lparr>fees := Some \<lparr>isAmountTooLow = True, isLiquidityInsufficient = True\<rparr>\<rparr>)
     = Some (Some ''Bridge fee is high for this amount. Send a larger amount.'')
   \<and> errorBox ((example_form ''0xETH'' 1 None)
               \<lparr>fees := Some \<lparr>isAmountTooLow = False, isLiquidityInsufficient = True\<rparr>\<rparr>)
     = Some (Some ''Insufficient liquidity for ETH.'')
   \<and> errorBox (example_form ''0xETH'' 1 None) = None"
  using
    error_message_precedence
      [of "(example_form ''0xETH'' 1 (Some (Error ''Insufficient balance.'')))
             \<lparr>fees := Some \<lparr>isAmountTooLow = True, isLiquidityInsufficient = True\<rparr>\<rparr>"
          "Error ''Insufficient balance.''"]
    error_message_precedence
      [of "(example_form ''0xETH'' 1 None)
             \<lparr>fees := Some \<lparr>isAmountTooLow = True, isLiquidityInsufficient = True\<rparr>\<rparr>"]
    error_message_precedence
      [of "(example_form ''0xETH'' 1 None)
             \<lparr>fees := Some \<lparr>isAmountTooLow = False, isLiquidityInsufficient = True\<rparr>\<rparr>"]
    error_message_precedence [of "example_form ''0xETH'' 1 None"]
  by (simp add: example_form_def feesAmountTooLow_def feesLiquidityInsufficient_def eth_token_def)

text \<open>
  Claim C10. Without an error, the error box shows something only if the committed
  amount is greater than zero (and then the fees carry one of the two marks); with an
  error, it shows the error's message for every committed amount.
\<close>

theorem fee_warnings_need_positive_amount:
  "(error st = None \<longrightarrow> errorBox st \<noteq> None \<longrightarrow>
      0 < amount st \<and> (feesAmountTooLow st \<or> feesLiquidityInsufficient st))
   \<and> (error st = Some e \<longrightarrow> (\<forall>a. errorBox (st\<lparr>amount := a\<rparr>) = Some (Some (message e))))"
  by (auto simp: errorBox_def showError_def errorMsg_def feesAmountTooLow_def
        feesLiquidityInsufficient_def)

theorem fee_warnings_need_positive_amount_witness:
  "errorBox ((example_form ''0xETH'' 0 None)
               \<lparr>fees := Some \<lparr>isAmountTooLow = True, isLiquidityInsufficient = True\<rparr>\<rparr>) = None
   \<and> errorBox ((example_form ''0xETH'' 1 None)
               \<lparr>fees := Some \<lparr>isAmountTooLow = True, isLiquidityInsufficient = True\<rparr>\<rparr>) \<noteq> None
   \<and> errorBox (example_form ''0xETH'' 0 (Some (ParsingError ''Invalid amount.'')))
       = Some (Some ''Invalid amount.'')"
  using
    fee_warnings_need_positive_amount
      [of "(example_form ''0xETH'' 0 None)
             \<lparr>fees := Some \<lparr>isAmountTooLow = True, isLiquidityInsufficient = True\<rparr>\<rparr>"]
    fee_warnings_need_positive_amount
      [of "(example_form ''0xETH'' 1 None)
             \<lparr>fees := Some \<lparr>isAmountTooLow = True, isLiquidityInsufficient = True\<rparr>\<rparr>"]
    fee_warnings_need_positive_amount
      [of "example_form ''0xETH'' 5 (Some (ParsingError ''Invalid amount.''))"
          "ParsingError ''Invalid amount.''"]
  by (simp add: example_form_def)
     (simp add: errorBox_def showError_def feesAmountTooLow_def errorMsg_def)

end
